theory Spec2Isabelle
  imports Complex_Main
begin

section \<open>Values\<close>

text \<open>
  The function \<open>icc\<close> of \<open>ICC/icc.py\<close> computes with three kinds of values.

  \<^item> Python integers (\<open>n_subjects\<close>, \<open>n_raters\<close>, the integer degrees of freedom):
    type \<open>int\<close>.
  \<^item> Python floats (\<open>r0\<close>, \<open>confidence_level\<close>, \<open>alpha\<close>): type \<open>real\<close>. A true
    division of two Python numbers raises \<open>ZeroDivisionError\<close> when the divisor is zero.
  \<^item> numpy \<open>float64\<close> scalars and arrays. numpy never raises on a division by zero: the
    result is \<open>inf\<close>, \<open>-inf\<close> or \<open>nan\<close> (with a warning). An entry is therefore either
    \<open>Fin r\<close>, a finite number, or \<open>NotFinite\<close>, which stands for \<open>inf\<close>, \<open>-inf\<close>,
    \<open>nan\<close> and for everything computed from them: the model does not follow a value
    any further once it has left the finite numbers.

  Arithmetic on finite values is exact: rounding and overflow of \<open>float64\<close> are not
  modelled.
\<close>

datatype npfloat = Fin real | NotFinite

instantiation npfloat :: "{plus, minus, times, inverse}"
begin

definition plus_npfloat_def:
  "(x :: npfloat) + y = (case (x, y) of (Fin a, Fin b) \<Rightarrow> Fin (a + b) | _ \<Rightarrow> NotFinite)"

definition minus_npfloat_def:
  "(x :: npfloat) - y = (case (x, y) of (Fin a, Fin b) \<Rightarrow> Fin (a - b) | _ \<Rightarrow> NotFinite)"

definition times_npfloat_def:
  "(x :: npfloat) * y = (case (x, y) of (Fin a, Fin b) \<Rightarrow> Fin (a * b) | _ \<Rightarrow> NotFinite)"

definition divide_npfloat_def:
  "divide (x :: npfloat) y = (case (x, y) of
              (Fin a, Fin b) \<Rightarrow> if b = 0 then NotFinite else Fin (a / b)
            | _ \<Rightarrow> NotFinite)"

definition inverse_npfloat_def:
  "inverse (x :: npfloat) = divide (Fin 1) x"

instance ..

end

text \<open>
  A numpy value is a \<open>float64\<close> scalar or a one-dimensional \<open>float64\<close> array. A binary
  operation is applied entry by entry; a scalar is broadcast over an array. Every
  array that \<open>icc\<close> combines with another one has \<open>n_raters\<close> entries, so the case of
  two arrays of different lengths (a \<open>ValueError\<close> in numpy) does not arise.
\<close>

datatype ndarr = Scalar npfloat | Vector "npfloat list"

fun broadcast :: "(npfloat \<Rightarrow> npfloat \<Rightarrow> npfloat) \<Rightarrow> ndarr \<Rightarrow> ndarr \<Rightarrow> ndarr" where
  "broadcast g (Scalar a) (Scalar b) = Scalar (g a b)"
| "broadcast g (Scalar a) (Vector ys) = Vector (map (g a) ys)"
| "broadcast g (Vector xs) (Scalar b) = Vector (map (\<lambda>x. g x b) xs)"
| "broadcast g (Vector xs) (Vector ys) = Vector (map2 g xs ys)"

instantiation ndarr :: "{plus, minus, times, inverse}"
begin

definition plus_ndarr_def:
  "(x :: ndarr) + y = broadcast (+) x y"

definition minus_ndarr_def:
  "(x :: ndarr) - y = broadcast (-) x y"

definition times_ndarr_def:
  "(x :: ndarr) * y = broadcast (*) x y"

definition divide_ndarr_def:
  "divide (x :: ndarr) y = broadcast divide x y"

definition inverse_ndarr_def:
  "inverse (x :: ndarr) = divide (Scalar (Fin 1)) x"

instance ..

end

text \<open>A Python number that meets a numpy value is converted to a \<open>float64\<close> scalar.\<close>

definition py_float :: "real \<Rightarrow> ndarr" where
  "py_float x = Scalar (Fin x)"

definition py_int :: "int \<Rightarrow> ndarr" where
  "py_int i = Scalar (Fin (real_of_int i))"

fun entries :: "ndarr \<Rightarrow> npfloat list" where
  "entries (Scalar a) = [a]"
| "entries (Vector xs) = xs"

section \<open>Errors\<close>

text \<open>
  The exceptions \<open>icc\<close> can end with. The source has no \<open>raise\<close> statement; each of
  them comes from the Python or numpy operation named here.

  \<^item> \<open>ValueError\<close>: unpacking \<open>ratings.shape\<close> into two names when the array does not
    have two dimensions.
  \<^item> \<open>ZeroDivisionError\<close>: a true division of two Python numbers by zero.
  \<^item> \<open>TypeError\<close>: the operator \<open>^\<close> (bitwise exclusive or) on \<open>float64\<close> operands.
  \<^item> \<open>UnboundLocalError\<close>: the \<open>return\<close> statement reads \<open>coeff\<close> when no branch of
    the dispatch has assigned it.
\<close>

datatype py_error = ValueError | ZeroDivisionError | TypeError | UnboundLocalError

definition py_truediv :: "real \<Rightarrow> real \<Rightarrow> py_error + real" where
  "py_truediv a b = (if b = 0 then Inl ZeroDivisionError else Inr (a / b))"

definition bitwise_xor :: "ndarr \<Rightarrow> ndarr \<Rightarrow> py_error + ndarr" where
  \<comment> \<open>numpy has no \<open>bitwise_xor\<close> for floating-point operands: \<open>x ^ y\<close> raises.\<close>
  "bitwise_xor x y = Inl TypeError"

section \<open>Arrays and their reductions\<close>

text \<open>
  The argument \<open>ratings\<close> is a numpy array: its shape and its entries in row-major
  order. A numpy array has as many entries as its shape says (\<open>well_formed\<close>); for
  such an array of shape \<open>(n, k)\<close> the entry of row \<open>i\<close> and column \<open>j\<close> is the entry
  \<open>i * k + j\<close> of \<open>flat\<close>. \<open>array1\<close> and \<open>array2\<close> build an array as \<open>np.array\<close> does from
  a list of numbers and from a list of rows of equal length (\<open>np.array([])\<close> is
  one-dimensional).
\<close>

datatype ndarray = NdArray (shape: "nat list") (flat: "npfloat list")

definition well_formed :: "ndarray \<Rightarrow> bool" where
  "well_formed a = (length (flat a) = prod_list (shape a))"

definition array1 :: "real list \<Rightarrow> ndarray" where
  "array1 xs = NdArray [length xs] (map Fin xs)"

definition array2 :: "real list list \<Rightarrow> ndarray" where
  "array2 rows =
     (case rows of
        [] \<Rightarrow> NdArray [0] []
      | row # _ \<Rightarrow> NdArray [length rows, length row] (map Fin (concat rows)))"

definition row_lists :: "ndarray \<Rightarrow> npfloat list list" where
  "row_lists a =
     (case shape a of
        [n, k] \<Rightarrow> map (\<lambda>i. take k (drop (i * k) (flat a))) [0..<n]
      | _ \<Rightarrow> [])"

definition column_lists :: "ndarray \<Rightarrow> npfloat list list" where
  "column_lists a =
     (case shape a of
        [n, k] \<Rightarrow> map (\<lambda>j. map (\<lambda>i. flat a ! (i * k + j)) [0..<n]) [0..<k]
      | _ \<Rightarrow> [])"

definition np_sum :: "npfloat list \<Rightarrow> npfloat" where
  "np_sum xs = foldl (+) (Fin 0) xs"

definition np_mean :: "npfloat list \<Rightarrow> npfloat" where
  \<comment> \<open>the sum over the count; \<open>nan\<close> for an empty list\<close>
  "np_mean xs = np_sum xs / Fin (real (length xs))"

definition np_var :: "npfloat list \<Rightarrow> npfloat" where
  \<comment> \<open>the population variance (\<open>ddof = 0\<close>, numpy's default)\<close>
  "np_var xs = (let m = np_mean xs in np_mean (map (\<lambda>x. (x - m) * (x - m)) xs))"

section \<open>The variance decomposition\<close>

text \<open>
  Lines 70 and 73 to 76 of \<open>icc.py\<close>, one definition for each name the source assigns:
  \<^verbatim>\<open>
    SStotal = np.var(ratings) * (n_subjects * n_raters - 1)
    MSr = np.mean(ratings, axis=0) * n_raters
    MSw = np.sum(np.var(ratings, axis=0) / n_subjects)
    MSc = np.var(np.mean(ratings, axis=1)) * n_subjects
    MSe = (SStotal - MSr * (n_subjects - 1) - MSc * (n_raters - 1))
          / ((n_subjects - 1) * (n_raters - 1))
  \<close>
  \<open>axis=0\<close> reduces over the rows: \<open>np.mean(ratings, axis=0)\<close> has one entry for each
  column (rater), \<open>np.mean(ratings, axis=1)\<close> one for each row (subject).
\<close>

definition icc_SStotal :: "ndarray \<Rightarrow> int \<Rightarrow> int \<Rightarrow> ndarr" where
  "icc_SStotal ratings n_subjects n_raters =
     Scalar (np_var (flat ratings)) * py_int (n_subjects * n_raters - 1)"

definition icc_MSr :: "ndarray \<Rightarrow> int \<Rightarrow> ndarr" where
  "icc_MSr ratings n_raters =
     Vector (map np_mean (column_lists ratings)) * py_int n_raters"

definition icc_MSw :: "ndarray \<Rightarrow> int \<Rightarrow> ndarr" where
  "icc_MSw ratings n_subjects =
     Scalar (np_sum (entries (Vector (map np_var (column_lists ratings)) / py_int n_subjects)))"

definition icc_MSc :: "ndarray \<Rightarrow> int \<Rightarrow> ndarr" where
  "icc_MSc ratings n_subjects =
     Scalar (np_var (map np_mean (row_lists ratings))) * py_int n_subjects"

definition icc_MSe :: "ndarray \<Rightarrow> int \<Rightarrow> int \<Rightarrow> ndarr" where
  "icc_MSe ratings n_subjects n_raters =
     (icc_SStotal ratings n_subjects n_raters
        - icc_MSr ratings n_raters * py_int (n_subjects - 1)
        - icc_MSc ratings n_subjects * py_int (n_raters - 1))
     / py_int ((n_subjects - 1) * (n_raters - 1))"

section \<open>The F distribution and the result\<close>

text \<open>
  \<open>from scipy.stats import f\<close>: the F distribution is not code of this repository. Its
  two functions that \<open>icc\<close> calls, \<open>f.cdf(x, dfn, dfd)\<close> and \<open>f.ppf(q, dfn, dfd)\<close>, are a
  parameter of the model, and every theorem below holds for whatever they return.
\<close>

record f_dist =
  cdf :: "ndarr \<Rightarrow> ndarr \<Rightarrow> ndarr \<Rightarrow> ndarr"
  ppf :: "ndarr \<Rightarrow> ndarr \<Rightarrow> ndarr \<Rightarrow> ndarr"

text \<open>
  The returned tuple \<open>(coeff, Fvalue, df1, df2, pvalue, lbound, ubound)\<close>. \<open>df1\<close> is a
  Python integer; \<open>df2\<close> is a Python integer, or the numpy value \<open>v\<close> in the two
  agreement branches.
\<close>

datatype df = IntDf int | ArrayDf ndarr

fun as_array :: "df \<Rightarrow> ndarr" where
  "as_array (IntDf i) = py_int i"
| "as_array (ArrayDf v) = v"

record icc_result =
  coeff :: ndarr
  Fvalue :: ndarr
  df1 :: int
  df2 :: df
  pvalue :: ndarr
  lbound :: ndarr
  ubound :: ndarr

section \<open>The six branches\<close>

text \<open>
  Each branch of the dispatch of \<open>icc\<close> (lines 79 to 193) is a definition of its own,
  in the order of the source. \<open>N\<close> is \<open>n_subjects\<close> and \<open>K\<close> is \<open>n_raters\<close>.
\<close>

definition icc_single_oneway ::
    "f_dist \<Rightarrow> int \<Rightarrow> int \<Rightarrow> real \<Rightarrow> real \<Rightarrow> ndarr \<Rightarrow> ndarr \<Rightarrow> py_error + icc_result" where
  "icc_single_oneway f N K alpha r0 MSr MSw =
     (let coeff' = (MSr - MSw) / (MSr + py_int (K - 1) * MSw) in
      case py_truediv (1 - r0) (1 + real_of_int (K - 1) * r0) of
        Inl e \<Rightarrow> Inl e
      | Inr c \<Rightarrow>
          let Fvalue' = MSr / MSw * py_float c;
              df1' = N - 1;
              df2' = N * (K - 1);
              pvalue' = py_int 1 - cdf f Fvalue' (py_int df1') (py_int df2');
              FL = (MSr / MSw) / ppf f (py_float (1 - alpha / 2)) (py_int (N - 1)) (py_int (N * (K - 1)));
              FU = (MSr / MSw) * ppf f (py_float (1 - alpha / 2)) (py_int (N * (K - 1))) (py_int (N - 1));
              lbound' = (FL - py_int 1) / (FL + py_int (K - 1));
              ubound' = (FU - py_int 1) / (FU + py_int (K - 1))
          in Inr \<lparr>coeff = coeff', Fvalue = Fvalue', df1 = df1', df2 = IntDf df2',
                  pvalue = pvalue', lbound = lbound', ubound = ubound'\<rparr>)"

definition icc_single_twoway_consistency ::
    "f_dist \<Rightarrow> int \<Rightarrow> int \<Rightarrow> real \<Rightarrow> real \<Rightarrow> ndarr \<Rightarrow> ndarr \<Rightarrow> py_error + icc_result" where
  "icc_single_twoway_consistency f N K alpha r0 MSr MSe =
     (let coeff' = (MSr - MSe) / (MSr + py_int (K - 1) * MSe) in
      case py_truediv (1 - r0) (1 + real_of_int (K - 1) * r0) of
        Inl e \<Rightarrow> Inl e
      | Inr c \<Rightarrow>
          let Fvalue' = MSr / MSe * py_float c;
              df1' = N - 1;
              df2' = (N - 1) * (K - 1);
              pvalue' = py_int 1 - cdf f Fvalue' (py_int df1') (py_int df2');
              FL = (MSr / MSe) / ppf f (py_float (1 - alpha / 2)) (py_int (N - 1)) (py_int ((N - 1) * (K - 1)));
              FU = (MSr / MSe) * ppf f (py_float (1 - alpha / 2)) (py_int ((N - 1) * (K - 1))) (py_int (N - 1));
              lbound' = (FL - py_int 1) / (FL + py_int (K - 1));
              ubound' = (FU - py_int 1) / (FU + py_int (K - 1))
          in Inr \<lparr>coeff = coeff', Fvalue = Fvalue', df1 = df1', df2 = IntDf df2',
                  pvalue = pvalue', lbound = lbound', ubound = ubound'\<rparr>)"

text \<open>
  Lines 126 to 127 and 183 to 184, the same text in both agreement branches:
  \<^verbatim>\<open>
    v = (a * MSc + b * MSe) ^ 2 / (
            (a * MSc) ^ 2 / (n_raters - 1) + (b * MSe) ^ 2 / ((n_subjects - 1) * (n_raters - 1)))
  \<close>
  In Python \<open>^\<close> is the bitwise exclusive or, and it binds more weakly than \<open>/\<close> and
  \<open>+\<close>. The statement is therefore read as
  \<^verbatim>\<open>
    v = (a*MSc + b*MSe) ^ (2 / (((a*MSc) ^ (2/(K-1) + b*MSe)) ^ (2/((N-1)*(K-1)))))
  \<close>
  and evaluated from left to right: the left operand of a \<open>^\<close> before its right
  operand, and the inner \<open>^\<close> before the outer one. \<open>2 / (n_raters - 1)\<close> divides two
  Python integers.
\<close>

definition satterthwaite_v :: "int \<Rightarrow> int \<Rightarrow> ndarr \<Rightarrow> ndarr \<Rightarrow> ndarr \<Rightarrow> ndarr \<Rightarrow> py_error + ndarr" where
  "satterthwaite_v N K a b MSc MSe =
     (let x = a * MSc + b * MSe;
          y = a * MSc in
      case py_truediv 2 (real_of_int (K - 1)) of
        Inl e \<Rightarrow> Inl e
      | Inr c \<Rightarrow>
          (case bitwise_xor y (py_float c + b * MSe) of
             Inl e \<Rightarrow> Inl e
           | Inr z \<Rightarrow>
               (case py_truediv 2 (real_of_int ((N - 1) * (K - 1))) of
                  Inl e \<Rightarrow> Inl e
                | Inr d \<Rightarrow>
                    (case bitwise_xor z (py_float d) of
                       Inl e \<Rightarrow> Inl e
                     | Inr w \<Rightarrow> bitwise_xor x (py_int 2 / w)))))"

definition icc_single_twoway_agreement ::
    "f_dist \<Rightarrow> int \<Rightarrow> int \<Rightarrow> real \<Rightarrow> real \<Rightarrow> ndarr \<Rightarrow> ndarr \<Rightarrow> ndarr \<Rightarrow> py_error + icc_result" where
  "icc_single_twoway_agreement f N K alpha r0 MSr MSc MSe =
     (case py_truediv (real_of_int K) (real_of_int N) of
        Inl e \<Rightarrow> Inl e
      | Inr kn \<Rightarrow>
          let coeff' = (MSr - MSe) / (MSr + py_int (K - 1) * MSe + py_float kn * (MSc - MSe)) in
          case py_truediv (real_of_int K * r0) (real_of_int N * (1 - r0)) of
            Inl e \<Rightarrow> Inl e
          | Inr a \<Rightarrow>
              (case py_truediv (real_of_int K * r0 * real_of_int (N - 1)) (real_of_int N * (1 - r0)) of
                 Inl e \<Rightarrow> Inl e
               | Inr q \<Rightarrow>
                   let b = 1 + q;
                       Fvalue' = MSr / (py_float a * MSc + py_float b * MSe);
                       a' = (py_int K * coeff') / (py_int N * (py_int 1 - coeff'));
                       b' = py_int 1 + (py_int K * coeff' * py_int (N - 1)) / (py_int N * (py_int 1 - coeff'))
                   in case satterthwaite_v N K a' b' MSc MSe of
                        Inl e \<Rightarrow> Inl e
                      | Inr v \<Rightarrow>
                          let df1' = N - 1;
                              pvalue' = py_int 1 - cdf f Fvalue' (py_int df1') v;
                              FL = ppf f (py_float (1 - alpha / 2)) (py_int (N - 1)) v;
                              FU = ppf f (py_float (1 - alpha / 2)) v (py_int (N - 1));
                              lbound' = (py_int N * (MSr - FL * MSe))
                                        / (FL * (py_int K * MSc + py_int (K * N - K - N) * MSe) + py_int N * MSr);
                              ubound' = (py_int N * (FU * MSr - MSe))
                                        / (py_int K * MSc + py_int (K * N - K - N) * MSe + py_int N * FU * MSr)
                          in Inr \<lparr>coeff = coeff', Fvalue = Fvalue', df1 = df1', df2 = ArrayDf v,
                                  pvalue = pvalue', lbound = lbound', ubound = ubound'\<rparr>))"

definition icc_average_oneway ::
    "f_dist \<Rightarrow> int \<Rightarrow> int \<Rightarrow> real \<Rightarrow> real \<Rightarrow> ndarr \<Rightarrow> ndarr \<Rightarrow> py_error + icc_result" where
  "icc_average_oneway f N K alpha r0 MSr MSw =
     (let coeff' = (MSr - MSw) / MSr;
          Fvalue' = MSr / MSw * py_float (1 - r0);
          df1' = N - 1;
          df2' = N * (K - 1);
          pvalue' = py_int 1 - cdf f Fvalue' (py_int df1') (py_int df2');
          FL = (MSr / MSw) / ppf f (py_float (1 - alpha / 2)) (py_int (N - 1)) (py_int (N * (K - 1)));
          FU = (MSr / MSw) * ppf f (py_float (1 - alpha / 2)) (py_int (N * (K - 1))) (py_int (N - 1));
          lbound' = py_int 1 - py_int 1 / FL;
          ubound' = py_int 1 - py_int 1 / FU
      in Inr \<lparr>coeff = coeff', Fvalue = Fvalue', df1 = df1', df2 = IntDf df2',
              pvalue = pvalue', lbound = lbound', ubound = ubound'\<rparr>)"

definition icc_average_twoway_consistency ::
    "f_dist \<Rightarrow> int \<Rightarrow> int \<Rightarrow> real \<Rightarrow> real \<Rightarrow> ndarr \<Rightarrow> ndarr \<Rightarrow> py_error + icc_result" where
  "icc_average_twoway_consistency f N K alpha r0 MSr MSe =
     (let coeff' = (MSr - MSe) / MSr;
          Fvalue' = MSr / MSe * py_float (1 - r0);
          df1' = N - 1;
          df2' = (N - 1) * (K - 1);
          pvalue' = py_int 1 - cdf f Fvalue' (py_int df1') (py_int df2');
          FL = (MSr / MSe) / ppf f (py_float (1 - alpha / 2)) (py_int (N - 1)) (py_int ((N - 1) * (K - 1)));
          FU = (MSr / MSe) * ppf f (py_float (1 - alpha / 2)) (py_int ((N - 1) * (K - 1))) (py_int (N - 1));
          lbound' = py_int 1 - py_int 1 / FL;
          ubound' = py_int 1 - py_int 1 / FU
      in Inr \<lparr>coeff = coeff', Fvalue = Fvalue', df1 = df1', df2 = IntDf df2',
              pvalue = pvalue', lbound = lbound', ubound = ubound'\<rparr>)"

definition icc_average_twoway_agreement ::
    "f_dist \<Rightarrow> int \<Rightarrow> int \<Rightarrow> real \<Rightarrow> real \<Rightarrow> ndarr \<Rightarrow> ndarr \<Rightarrow> ndarr \<Rightarrow> py_error + icc_result" where
  "icc_average_twoway_agreement f N K alpha r0 MSr MSc MSe =
     (let coeff' = (MSr - MSe) / (MSr + (MSc - MSe) / py_int N) in
      case py_truediv r0 (real_of_int N * (1 - r0)) of
        Inl e \<Rightarrow> Inl e
      | Inr a \<Rightarrow>
          (case py_truediv (r0 * real_of_int (N - 1)) (real_of_int N * (1 - r0)) of
             Inl e \<Rightarrow> Inl e
           | Inr q \<Rightarrow>
               let b = 1 + q;
                   Fvalue' = MSr / (py_float a * MSc + py_float b * MSe);
                   a' = (py_int K * coeff') / (py_int N * (py_int 1 - coeff'));
                   b' = py_int 1 + (py_int K * coeff' * py_int (N - 1)) / (py_int N * (py_int 1 - coeff'))
               in case satterthwaite_v N K a' b' MSc MSe of
                    Inl e \<Rightarrow> Inl e
                  | Inr v \<Rightarrow>
                      let df1' = N - 1;
                          pvalue' = py_int 1 - cdf f Fvalue' (py_int df1') v;
                          FL = ppf f (py_float (1 - alpha / 2)) (py_int (N - 1)) v;
                          FU = ppf f (py_float (1 - alpha / 2)) v (py_int (N - 1));
                          lbound' = (py_int N * (MSr - FL * MSe)) / (FL * (MSc - MSe) + py_int N * MSr);
                          ubound' = (py_int N * (FU * MSr - MSe)) / (MSc - MSe + py_int N * FU * MSr)
                      in Inr \<lparr>coeff = coeff', Fvalue = Fvalue', df1 = df1', df2 = ArrayDf v,
                              pvalue = pvalue', lbound = lbound', ubound = ubound'\<rparr>))"

section \<open>The function \<open>icc\<close>\<close>

text \<open>
  \<^verbatim>\<open>
  def icc(ratings, model='oneway', type='consistency', unit='single', r0=0, confidence_level=0.95):
      n_subjects, n_raters = ratings.shape
      ...
      if unit == 'single':
          if model == 'oneway': ...
          elif model == 'twoway':
              if type == 'consistency': ...
              elif type == 'agreement': ...
      elif unit == 'average':
          (the same dispatch)
      return coeff, Fvalue, df1, df2, pvalue, lbound, ubound
  \<close>
  The dispatch has no \<open>else\<close>: where no branch is taken nothing is assigned, and the
  \<open>return\<close> statement raises \<open>UnboundLocalError\<close>. The variance decomposition is
  computed before the dispatch, with numpy operations only, so it raises nothing.
\<close>

definition icc ::
    "f_dist \<Rightarrow> ndarray \<Rightarrow> string \<Rightarrow> string \<Rightarrow> string \<Rightarrow> real \<Rightarrow> real \<Rightarrow> py_error + icc_result" where
  "icc f ratings model type unit r0 confidence_level =
     (case shape ratings of
        [n, k] \<Rightarrow>
          let n_subjects = int n;
              n_raters = int k;
              alpha = 1 - confidence_level;
              MSr = icc_MSr ratings n_raters;
              MSw = icc_MSw ratings n_subjects;
              MSc = icc_MSc ratings n_subjects;
              MSe = icc_MSe ratings n_subjects n_raters
          in
            if unit = ''single'' then
              if model = ''oneway'' then
                icc_single_oneway f n_subjects n_raters alpha r0 MSr MSw
              else if model = ''twoway'' then
                if type = ''consistency'' then
                  icc_single_twoway_consistency f n_subjects n_raters alpha r0 MSr MSe
                else if type = ''agreement'' then
                  icc_single_twoway_agreement f n_subjects n_raters alpha r0 MSr MSc MSe
                else Inl UnboundLocalError
              else Inl UnboundLocalError
            else if unit = ''average'' then
              if model = ''oneway'' then
                icc_average_oneway f n_subjects n_raters alpha r0 MSr MSw
              else if model = ''twoway'' then
                if type = ''consistency'' then
                  icc_average_twoway_consistency f n_subjects n_raters alpha r0 MSr MSe
                else if type = ''agreement'' then
                  icc_average_twoway_agreement f n_subjects n_raters alpha r0 MSr MSc MSe
                else Inl UnboundLocalError
              else Inl UnboundLocalError
            else Inl UnboundLocalError
      | _ \<Rightarrow> Inl ValueError)"

section \<open>Inputs of the test suite\<close>

text \<open>
  The ratings of Shrout and Fleiss (1979), six subjects and four raters, used by the
  tests \<open>test_icc_*_with_shrout_values\<close>; the two identical columns of
  \<open>test_with_koo_and_li_values_case_1\<close>, \<open>np.vstack((x, y)).T\<close> for
  \<open>x = y = [4, 8, 12, 16, 20]\<close>; and a matrix of two subjects and two raters who
  disagree.
\<close>

definition shrout :: ndarray where
  "shrout = array2 [[9, 2, 5, 8], [6, 1, 3, 2], [8, 4, 6, 8], [7, 1, 2, 6], [10, 5, 6, 9], [6, 2, 4, 7]]"

definition koo :: ndarray where
  "koo = array2 [[4, 4], [8, 8], [12, 12], [16, 16], [20, 20]]"

definition disagreeing :: ndarray where
  "disagreeing = array2 [[- 3, 5], [5, - 3]]"

section \<open>Predicates on numpy values\<close>

fun fin_nonneg :: "npfloat \<Rightarrow> bool" where
  "fin_nonneg (Fin r) = (0 \<le> r)"
| "fin_nonneg NotFinite = False"

fun fin_nonzero :: "npfloat \<Rightarrow> bool" where
  "fin_nonzero (Fin r) = (r \<noteq> 0)"
| "fin_nonzero NotFinite = False"

fun fin_between :: "real \<Rightarrow> real \<Rightarrow> npfloat \<Rightarrow> bool" where
  "fin_between lo hi (Fin r) = (lo \<le> r \<and> r \<le> hi)"
| "fin_between lo hi NotFinite = False"

fun fin_at_most :: "real \<Rightarrow> npfloat \<Rightarrow> bool" where
  "fin_at_most hi (Fin r) = (r \<le> hi)"
| "fin_at_most hi NotFinite = False"

text \<open>Every entry of a numpy value is finite and non-negative, non-zero, or in a range.\<close>

definition all_nonneg :: "ndarr \<Rightarrow> bool" where
  "all_nonneg v = list_all fin_nonneg (entries v)"

definition all_nonzero :: "ndarr \<Rightarrow> bool" where
  "all_nonzero v = list_all fin_nonzero (entries v)"

definition all_between :: "real \<Rightarrow> real \<Rightarrow> ndarr \<Rightarrow> bool" where
  "all_between lo hi v = list_all (fin_between lo hi) (entries v)"

definition all_at_most :: "real \<Rightarrow> ndarr \<Rightarrow> bool" where
  "all_at_most hi v = list_all (fin_at_most hi) (entries v)"

section \<open>Evaluation rules\<close>

lemma npfloat_arith [simp]:
  "Fin a + Fin b = Fin (a + b)"
  "Fin a - Fin b = Fin (a - b)"
  "Fin a * Fin b = Fin (a * b)"
  "Fin a / Fin b = (if b = 0 then NotFinite else Fin (a / b))"
  by (simp_all add: plus_npfloat_def minus_npfloat_def times_npfloat_def divide_npfloat_def)

lemma npfloat_not_finite [simp]:
  "NotFinite + y = NotFinite" "x + NotFinite = NotFinite"
  "NotFinite - y = NotFinite" "x - NotFinite = NotFinite"
  "NotFinite * y = NotFinite" "x * NotFinite = NotFinite"
  "NotFinite / y = NotFinite" "x / NotFinite = NotFinite"
  by (simp_all add: plus_npfloat_def minus_npfloat_def times_npfloat_def divide_npfloat_def
      split: npfloat.splits)

lemmas ndarr_arith = plus_ndarr_def minus_ndarr_def times_ndarr_def divide_ndarr_def
  py_int_def py_float_def

lemmas np_reductions = np_sum_def np_mean_def np_var_def row_lists_def column_lists_def
  array1_def array2_def

lemmas variance_decomposition = icc_SStotal_def icc_MSr_def icc_MSw_def icc_MSc_def icc_MSe_def

lemmas icc_branches = icc_single_oneway_def icc_single_twoway_consistency_def
  icc_single_twoway_agreement_def icc_average_oneway_def icc_average_twoway_consistency_def
  icc_average_twoway_agreement_def satterthwaite_v_def bitwise_xor_def py_truediv_def

lemma inputs_well_formed:
  "well_formed shrout" "well_formed koo" "well_formed disagreeing"
  "well_formed (array1 [4, 2])" "well_formed (array2 [[4, 2]])" "well_formed (array2 [[4], [2]])"
  by (simp_all add: well_formed_def shrout_def koo_def disagreeing_def array1_def array2_def)

lemma shrout_shape: "shape shrout = [6, 4]"
  by (simp add: shrout_def array2_def)

lemma koo_shape: "shape koo = [5, 2]"
  by (simp add: koo_def array2_def)

lemma disagreeing_shape: "shape disagreeing = [2, 2]"
  by (simp add: disagreeing_def array2_def)

lemma shrout_MSr:
  "icc_MSr shrout 4 = Vector [Fin (92 / 3), Fin 10, Fin (52 / 3), Fin (80 / 3)]"
  by (simp add: shrout_def variance_decomposition np_reductions ndarr_arith)

lemma shrout_MSe:
  "icc_MSe shrout 6 4 =
     Vector [Fin (- (19337 / 8640)), Fin (40183 / 8640), Fin (19063 / 8640), Fin (- (7817 / 8640))]"
  by (simp add: shrout_def variance_decomposition np_reductions ndarr_arith)

lemma koo_mean_squares:
  "icc_MSr koo 2 = Vector [Fin 24, Fin 24]"
  "icc_MSw koo 5 = Scalar (Fin (64 / 5))"
  "icc_MSc koo 5 = Scalar (Fin 160)"
  "icc_MSe koo 5 2 = Vector [Fin 8, Fin 8]"
  by (simp_all add: koo_def variance_decomposition np_reductions ndarr_arith)

lemma disagreeing_mean_squares:
  "icc_MSr disagreeing 2 = Vector [Fin 2, Fin 2]"
  "icc_MSw disagreeing 2 = Scalar (Fin 16)"
  "icc_MSc disagreeing 2 = Scalar (Fin 0)"
  "icc_MSe disagreeing 2 2 = Vector [Fin 46, Fin 46]"
  by (simp_all add: disagreeing_def variance_decomposition np_reductions ndarr_arith)

section \<open>Rejected inputs\<close>




section \<open>Configurations outside the dispatch\<close>




section \<open>The one-way model ignores \<open>type\<close>\<close>

text \<open>
  Claim C10. With \<open>model='oneway'\<close> the argument \<open>type\<close> has no influence: two calls
  that differ in \<open>type\<close> only give the same outcome, the same tuple or the same
  exception, for every input, unit, \<open>r0\<close> and confidence level.
\<close>

theorem oneway_ignores_type:
  "icc f ratings ''oneway'' type1 unit r0 confidence_level
     = icc f ratings ''oneway'' type2 unit r0 confidence_level"
  by (simp add: icc_def Let_def split: list.split)

section \<open>The exclusive or in the agreement branches\<close>

text \<open>
  Claim C3 says that the Satterthwaite degrees of freedom \<open>v\<close> are computed by
  squaring. The source writes \<open>^\<close>, Python's bitwise exclusive or, which numpy does not
  define on \<open>float64\<close>: for every matrix with at least one subject and a number of
  raters other than one, and every \<open>r0\<close> other than 1, both agreement branches end in
  a \<open>TypeError\<close> at the statement that assigns \<open>v\<close>. No \<open>v\<close> is ever computed.
\<close>

theorem agreement_branches_raise_type_error:
  assumes "shape ratings = [n, k]" and "n \<noteq> 0" and "k \<noteq> 1" and "r0 \<noteq> 1"
  shows "icc f ratings ''twoway'' ''agreement'' ''single'' r0 confidence_level = Inl TypeError
       \<and> icc f ratings ''twoway'' ''agreement'' ''average'' r0 confidence_level = Inl TypeError"
  using assms by (simp add: icc_def Let_def icc_branches)

theorem agreement_branches_raise_type_error_witness:
  "shape shrout = [6, 4]
   \<and> (\<forall>f. icc f shrout ''twoway'' ''agreement'' ''single'' 0 (19 / 20) = Inl TypeError
          \<and> icc f shrout ''twoway'' ''agreement'' ''average'' 0 (19 / 20) = Inl TypeError)"
  using agreement_branches_raise_type_error [of shrout 6 4 0]
  by (simp add: shrout_shape)

section \<open>The mean square for rows\<close>

text \<open>
  Claim C4 says that \<open>MSr\<close> is the between-subjects mean square, one number: \<open>K\<close>
  times the variance of the means of the rows. The source assigns
  \<open>MSr = np.mean(ratings, axis=0) * n_raters\<close>: the means of the columns, one entry
  for each rater, times \<open>K\<close>, and no variance is taken. For the ratings of Shrout and
  Fleiss \<open>MSr\<close> is an array of four entries, while \<open>K\<close> times the (population)
  variance of the six row means is the scalar \<open>1349 / 144\<close>.
\<close>

theorem MSr_is_array_of_column_means:
  "icc_MSr ratings K = Vector (map (\<lambda>column. np_mean column * Fin (real_of_int K)) (column_lists ratings))
   \<and> icc_MSr shrout 4 = Vector [Fin (92 / 3), Fin 10, Fin (52 / 3), Fin (80 / 3)]
   \<and> py_int 4 * Scalar (np_var (map np_mean (row_lists shrout))) = Scalar (Fin (1349 / 144))"
  by (simp add: shrout_MSr) (simp add: shrout_def variance_decomposition np_reductions ndarr_arith)

section \<open>Identical columns\<close>

text \<open>
  Claim C5 says that for two raters with the identical scores \<open>4, 8, 12, 16, 20\<close> the
  coefficient is within 0.01 of 1 in all six configurations. With the \<open>MSr\<close> of the
  source the four branches that return give arrays with the entries \<open>7/23\<close>, \<open>1/2\<close>,
  \<open>7/15\<close> and \<open>2/3\<close>, and the two agreement branches raise \<open>TypeError\<close>.
\<close>

theorem identical_columns_coeff:
  "map_sum id coeff (icc f koo ''oneway'' ''agreement'' ''single'' 0 (19 / 20))
     = Inr (Vector [Fin (7 / 23), Fin (7 / 23)])
   \<and> icc f koo ''twoway'' ''agreement'' ''single'' 0 (19 / 20) = Inl TypeError
   \<and> map_sum id coeff (icc f koo ''twoway'' ''consistency'' ''single'' 0 (19 / 20))
     = Inr (Vector [Fin (1 / 2), Fin (1 / 2)])
   \<and> map_sum id coeff (icc f koo ''oneway'' ''agreement'' ''average'' 0 (19 / 20))
     = Inr (Vector [Fin (7 / 15), Fin (7 / 15)])
   \<and> icc f koo ''twoway'' ''agreement'' ''average'' 0 (19 / 20) = Inl TypeError
   \<and> map_sum id coeff (icc f koo ''twoway'' ''consistency'' ''average'' 0 (19 / 20))
     = Inr (Vector [Fin (2 / 3), Fin (2 / 3)])"
  by (simp add: icc_def Let_def koo_shape koo_mean_squares icc_branches ndarr_arith)

section \<open>The values of Shrout and Fleiss\<close>

text \<open>
  Claim C6 gives, for the ratings of Shrout and Fleiss with \<open>model='twoway'\<close>,
  \<open>type='consistency'\<close>, \<open>unit='single'\<close>, the coefficient 0.7148 and the F value 11.027
  with 5 and 15 degrees of freedom. The degrees of freedom are as claimed. The
  coefficient and the F value of the source are arrays of four entries, about
  \<open>[1.374, 0.223, 0.632, 1.151]\<close> and \<open>[-13.70, 2.150, 7.856, -29.47]\<close>.
\<close>

theorem shrout_twoway_consistency_single:
  "map_sum id (\<lambda>res. (coeff res, Fvalue res, df1 res, df2 res))
      (icc f shrout ''twoway'' ''consistency'' ''single'' 0 (19 / 20))
   = Inr (Vector [Fin (284297 / 206949), Fin (46217 / 206949),
                  Fin (130697 / 206949), Fin (238217 / 206949)],
          Vector [Fin (- (264960 / 19337)), Fin (86400 / 40183),
                  Fin (149760 / 19063), Fin (- (230400 / 7817))],
          5, IntDf 15)"
  by (simp add: icc_def Let_def shrout_shape shrout_MSr shrout_MSe
      icc_single_twoway_consistency_def py_truediv_def ndarr_arith)

section \<open>The p-value\<close>

text \<open>
  Claim C7 says that in all six configurations the returned p-value is
  \<open>1 - F_cdf(Fvalue, df1, df2)\<close>. With \<open>model='twoway'\<close> and \<open>type='agreement'\<close> nothing
  is returned, whatever the input, the unit, \<open>r0\<close> and the confidence level: the call
  ends in an exception before the statement that assigns \<open>pvalue\<close>.
\<close>

theorem agreement_returns_nothing:
  "icc f ratings ''twoway'' ''agreement'' unit r0 confidence_level \<noteq> Inr res"
  by (auto simp: icc_def Let_def icc_branches split: list.splits if_splits)

text \<open>
  In the branches that return, the p-value is the upper tail of the F distribution at
  the returned F value and degrees of freedom.
\<close>

theorem pvalue_is_upper_tail:
  assumes "icc f ratings model type unit r0 confidence_level = Inr res"
  shows "pvalue res = py_int 1 - cdf f (Fvalue res) (py_int (df1 res)) (as_array (df2 res))"
  using assms
  by (auto simp: icc_def Let_def icc_branches split: list.splits if_splits)

theorem pvalue_is_upper_tail_witness:
  "\<forall>f. \<exists>res. icc f koo ''oneway'' ''agreement'' ''single'' 0 (19 / 20) = Inr res
     \<and> pvalue res = py_int 1 - cdf f (Vector [Fin (15 / 8), Fin (15 / 8)]) (py_int 4) (py_int 5)"
proof
  fix f
  have "map_sum id (\<lambda>res. (Fvalue res, df1 res, df2 res))
          (icc f koo ''oneway'' ''agreement'' ''single'' 0 (19 / 20))
        = Inr (Vector [Fin (15 / 8), Fin (15 / 8)], 4, IntDf 5)"
    by (simp add: icc_def Let_def koo_shape koo_mean_squares icc_branches ndarr_arith)
  then obtain res where res: "icc f koo ''oneway'' ''agreement'' ''single'' 0 (19 / 20) = Inr res"
    and "Fvalue res = Vector [Fin (15 / 8), Fin (15 / 8)]" "df1 res = 4" "df2 res = IntDf 5"
    by (cases "icc f koo ''oneway'' ''agreement'' ''single'' 0 (19 / 20)") auto
  with pvalue_is_upper_tail [OF res]
  show "\<exists>res. icc f koo ''oneway'' ''agreement'' ''single'' 0 (19 / 20) = Inr res
     \<and> pvalue res = py_int 1 - cdf f (Vector [Fin (15 / 8), Fin (15 / 8)]) (py_int 4) (py_int 5)"
    by simp
qed

text \<open>
  In the branches that return, the numerator degrees of freedom are \<open>N - 1\<close> and the
  denominator degrees of freedom are \<open>N (K - 1)\<close> for the one-way model and
  \<open>(N - 1) (K - 1)\<close> for the two-way model.
\<close>

theorem degrees_of_freedom:
  assumes "shape ratings = [n, k]"
    and "icc f ratings model type unit r0 confidence_level = Inr res"
  shows "df1 res = int n - 1
       \<and> df2 res = IntDf (if model = ''oneway'' then int n * (int k - 1)
                         else (int n - 1) * (int k - 1))"
  using assms
  by (auto simp: icc_def Let_def icc_branches split: if_splits)

theorem degrees_of_freedom_witness:
  "\<forall>f. \<exists>res. icc f shrout ''twoway'' ''consistency'' ''single'' 0 (19 / 20) = Inr res
     \<and> df1 res = 5 \<and> df2 res = IntDf 15"
proof
  fix f
  have "\<exists>res. icc f shrout ''twoway'' ''consistency'' ''single'' 0 (19 / 20) = Inr res"
    by (simp add: icc_def Let_def shrout_shape icc_branches)
  then obtain res where res: "icc f shrout ''twoway'' ''consistency'' ''single'' 0 (19 / 20) = Inr res" ..
  from degrees_of_freedom [OF shrout_shape res]
  have "df1 res = 5 \<and> df2 res = IntDf 15" by simp
  with res show "\<exists>res. icc f shrout ''twoway'' ''consistency'' ''single'' 0 (19 / 20) = Inr res
     \<and> df1 res = 5 \<and> df2 res = IntDf 15" by blast
qed

section \<open>The confidence interval\<close>

text \<open>
  Claim C8 says that the returned bounds bracket the coefficient. For the ratings of
  Shrout and Fleiss with \<open>model='twoway'\<close>, \<open>type='consistency'\<close>, \<open>unit='single'\<close> and
  the defaults, the first entry of the returned coefficient is \<open>284297 / 206949\<close>,
  about 1.374, and the first entry of the upper bound is below it as soon as the
  quantile \<open>f.ppf(0.975, 15, 5)\<close> is above 1 (it is about 6.43): the first entry of
  \<open>MSe\<close> is negative, so the ratio \<open>MSr / MSe\<close> is negative and a larger quantile
  gives a smaller bound.
\<close>

theorem shrout_consistency_upper_bound_below_coeff:
  assumes q: "ppf f (py_float (39 / 40)) (py_int 15) (py_int 5) = Scalar (Fin q)" and "1 < q"
  shows "\<exists>res u. icc f shrout ''twoway'' ''consistency'' ''single'' 0 (19 / 20) = Inr res
           \<and> hd (entries (coeff res)) = Fin (284297 / 206949)
           \<and> hd (entries (ubound res)) = Fin u \<and> u < 284297 / 206949"
proof -
  define t where "t = - (264960 * q / 19337)"
  have t: "t < - (264960 / 19337)" using \<open>1 < q\<close> by (simp add: t_def)
  then have d: "t + 3 < 0" by simp
  have "(t - 1) / (t + 3) < 284297 / 206949"
    using d t by (simp add: neg_divide_less_eq)
  then have u: "(- (264960 * q / 19337) - 1) / (3 - 264960 * q / 19337) < 284297 / 206949"
    by (simp add: t_def add.commute)
  have "map_sum id (\<lambda>res. (hd (entries (coeff res)), hd (entries (ubound res))))
          (icc f shrout ''twoway'' ''consistency'' ''single'' 0 (19 / 20))
        = Inr (Fin (284297 / 206949), Fin ((- (264960 * q / 19337) - 1) / (3 - 264960 * q / 19337)))"
    using assms
    by (simp add: icc_def Let_def shrout_shape shrout_MSr shrout_MSe
        icc_single_twoway_consistency_def py_truediv_def ndarr_arith)
  with u show ?thesis
    by (cases "icc f shrout ''twoway'' ''consistency'' ''single'' 0 (19 / 20)") auto
qed


theorem shrout_consistency_upper_bound_below_coeff_witness:
  "\<forall>c. \<exists>res u. icc \<lparr>cdf = c, ppf = (\<lambda>q dfn dfd. py_float (643 / 100))\<rparr> shrout
                  ''twoway'' ''consistency'' ''single'' 0 (19 / 20) = Inr res
           \<and> hd (entries (coeff res)) = Fin (284297 / 206949)
           \<and> hd (entries (ubound res)) = Fin u \<and> u < 284297 / 206949"
  using shrout_consistency_upper_bound_below_coeff
    [of "\<lparr>cdf = c, ppf = (\<lambda>q dfn dfd. py_float (643 / 100))\<rparr>" "643 / 100" for c]
  by (simp add: py_float_def)

section \<open>The range of the coefficient\<close>

lemma map2_of_maps:
  "map2 g (map p xs) (map q xs) = map (\<lambda>x. g (p x) (q x)) xs"
  by (induction xs) simp_all

lemma map2_of_map_left:
  "map2 g (map p xs) xs = map (\<lambda>x. g (p x) x) xs"
  by (induction xs) simp_all

lemma map2_of_map2s:
  "map2 g (map2 p xs ys) (map2 q xs (map s ys)) = map2 (\<lambda>a b. g (p a b) (q a (s b))) xs ys"
  by (induction xs ys rule: list_induct2') simp_all

lemma map2_of_map2_left:
  "map2 g (map2 p xs ys) xs = map2 (\<lambda>a b. g (p a b) a) xs ys"
  by (induction xs ys rule: list_induct2') simp_all

lemma map2_of_map_right:
  "map2 q xs (map s ys) = map2 (\<lambda>a b. q a (s b)) xs ys"
  by (induction xs ys rule: list_induct2') simp_all

lemma single_formula_broadcast:
  "(r - w) / (r + py_int c * w)
     = broadcast (\<lambda>a b. (a - b) / (a + Fin (real_of_int c) * b)) r w"
proof (cases r; cases w)
  fix xs ys assume "r = Vector xs" "w = Vector ys"
  then show ?thesis
    by (simp only: ndarr_arith broadcast.simps map2_of_map2s)
next
  fix a ys assume "r = Scalar a" "w = Vector ys"
  then show ?thesis
    by (simp only: ndarr_arith broadcast.simps map_map comp_def map2_of_maps)
next
  fix xs b assume "r = Vector xs" "w = Scalar b"
  then show ?thesis
    by (simp only: ndarr_arith broadcast.simps map2_of_maps)
qed (simp add: ndarr_arith)

lemma single_denominator_broadcast:
  "r + py_int c * w = broadcast (\<lambda>a b. a + Fin (real_of_int c) * b) r w"
proof (cases r; cases w)
  fix xs ys assume "r = Vector xs" "w = Vector ys"
  then show ?thesis
    by (simp only: ndarr_arith broadcast.simps map2_of_map_right)
qed (simp_all add: ndarr_arith)

lemma broadcast_entries_all:
  assumes step: "\<And>a b. A a \<Longrightarrow> B b \<Longrightarrow> D (d a b) \<Longrightarrow> C (h a b)"
    and r: "list_all A (entries r)"
    and w: "list_all B (entries w)"
    and d: "list_all D (entries (broadcast d r w))"
  shows "list_all C (entries (broadcast h r w))"
proof (cases r)
  case (Scalar a)
  show ?thesis
  proof (cases w)
    case (Scalar b)
    with \<open>r = Scalar a\<close> r w d step show ?thesis by simp
  next
    case (Vector ys)
    with \<open>r = Scalar a\<close> r w d step show ?thesis by (auto simp: list_all_iff)
  qed
next
  case (Vector xs)
  show ?thesis
  proof (cases w)
    case (Scalar b)
    with \<open>r = Vector xs\<close> r w d step show ?thesis by (auto simp: list_all_iff)
  next
    case (Vector ys)
    with \<open>r = Vector xs\<close> r w d have
      "\<forall>x\<in>set xs. A x" "\<forall>y\<in>set ys. B y" "\<forall>(a, b)\<in>set (zip xs ys). D (d a b)"
      by (auto simp: list_all_iff)
    then have "\<forall>(a, b)\<in>set (zip xs ys). C (h a b)"
      using step by (fastforce dest: set_zip_leftD set_zip_rightD)
    with \<open>r = Vector xs\<close> \<open>w = Vector ys\<close> show ?thesis
      by (auto simp: list_all_iff)
  qed
qed

lemma single_entry_range:
  assumes "fin_nonneg a" "fin_nonneg b" "fin_nonzero (a + Fin c * b)" "1 \<le> c"
  shows "fin_between (- 1) 1 ((a - b) / (a + Fin c * b))"
proof -
  from assms(1,2) obtain x y where a: "a = Fin x" and b: "b = Fin y" and x: "0 \<le> x" and y: "0 \<le> y"
    by (cases a; cases b) simp_all
  from assms(3) a b have nz: "x + c * y \<noteq> 0" by simp
  have "0 \<le> c * y" using \<open>1 \<le> c\<close> y by simp
  with x nz have pos: "0 < x + c * y" by linarith
  have "y \<le> c * y" using \<open>1 \<le> c\<close> y by (simp add: mult_le_cancel_right1)
  then have up: "x - y \<le> x + c * y" and lo: "- (x + c * y) \<le> x - y"
    using x y \<open>0 \<le> c * y\<close> by linarith+
  from pos up have "(x - y) / (x + c * y) \<le> 1" by (simp add: divide_le_eq)
  moreover from pos lo have "- 1 \<le> (x - y) / (x + c * y)" by (simp add: le_divide_eq)
  ultimately show ?thesis using a b nz by simp
qed

lemma single_coeff_range:
  assumes "all_nonneg r" "all_nonneg w" "all_nonzero (r + py_int (K - 1) * w)" "2 \<le> K"
  shows "all_between (- 1) 1 ((r - w) / (r + py_int (K - 1) * w))"
proof -
  have c: "1 \<le> real_of_int (K - 1)" using \<open>2 \<le> K\<close> by simp
  show ?thesis
    unfolding all_between_def single_formula_broadcast
  proof (rule broadcast_entries_all [where A = fin_nonneg and B = fin_nonneg and D = fin_nonzero
        and d = "\<lambda>a b. a + Fin (real_of_int (K - 1)) * b"])
    show "fin_between (- 1) 1 ((a - b) / (a + Fin (real_of_int (K - 1)) * b))"
      if "fin_nonneg a" "fin_nonneg b" "fin_nonzero (a + Fin (real_of_int (K - 1)) * b)" for a b
      using that c by (rule single_entry_range)
    show "list_all fin_nonneg (entries r)" using assms(1) by (simp add: all_nonneg_def)
    show "list_all fin_nonneg (entries w)" using assms(2) by (simp add: all_nonneg_def)
    show "list_all fin_nonzero (entries (broadcast (\<lambda>a b. a + Fin (real_of_int (K - 1)) * b) r w))"
      using assms(3) by (simp add: all_nonzero_def single_denominator_broadcast)
  qed
qed

lemma average_formula_broadcast:
  "(r - w) / r = broadcast (\<lambda>a b. (a - b) / a) r w"
proof (cases r; cases w)
  fix xs ys assume "r = Vector xs" "w = Vector ys"
  then show ?thesis
    by (simp only: ndarr_arith broadcast.simps map2_of_map2_left)
next
  fix xs b assume "r = Vector xs" "w = Scalar b"
  then show ?thesis
    by (simp only: ndarr_arith broadcast.simps map2_of_map_left)
qed (simp_all add: ndarr_arith)

lemma average_entry_at_most:
  assumes "fin_nonneg a" "fin_nonneg b" "fin_nonzero a"
  shows "fin_at_most 1 ((a - b) / a)"
proof -
  from assms obtain x y where a: "a = Fin x" and b: "b = Fin y" and x: "0 < x" and y: "0 \<le> y"
    by (cases a; cases b) auto
  then have "(x - y) / x \<le> 1" by (simp add: divide_le_eq)
  with a b x show ?thesis by simp
qed

lemma broadcast_entries_all2:
  assumes step: "\<And>a b. A a \<Longrightarrow> B b \<Longrightarrow> C (h a b)"
    and r: "list_all A (entries r)"
    and w: "list_all B (entries w)"
  shows "list_all C (entries (broadcast h r w))"
  using broadcast_entries_all [where D = "\<lambda>_. True" and d = h and A = A and B = B and C = C and h = h and r = r and w = w]
    step r w by (simp add: list_all_iff)

lemma average_coeff_at_most:
  assumes "all_nonneg r" "all_nonneg w" "all_nonzero r"
  shows "all_at_most 1 ((r - w) / r)"
proof -
  have "list_all (\<lambda>a. fin_nonneg a \<and> fin_nonzero a) (entries r)"
    using assms(1,3) by (simp add: all_nonneg_def all_nonzero_def list_all_iff)
  moreover have "list_all fin_nonneg (entries w)" using assms(2) by (simp add: all_nonneg_def)
  ultimately show ?thesis
    unfolding all_at_most_def average_formula_broadcast
    by (rule broadcast_entries_all2 [rotated]) (simp add: average_entry_at_most)
qed


text \<open>
  Claim C9, as the code has it. Let the matrix have at least two raters and let the
  mean squares the formula uses be finite and non-negative (\<open>MSr\<close> and \<open>MSw\<close> for the
  one-way model, \<open>MSr\<close> and \<open>MSe\<close> for the two-way model with consistency). With
  \<open>unit='single'\<close>, if the denominator of the coefficient is non-zero and the F
  statistic can be computed (\<open>1 + (K - 1) r0\<close> is not zero), \<open>icc\<close> returns and every
  entry of the coefficient is in \<open>[-1, 1]\<close>. With \<open>unit='average'\<close>, if \<open>MSr\<close> is
  non-zero, \<open>icc\<close> returns and every entry of the coefficient is at most 1. The two
  agreement branches are not covered.
\<close>

theorem coeff_range_by_unit:
  assumes shape: "shape ratings = [n, k]" and k: "2 \<le> k"
    and MSr: "all_nonneg (icc_MSr ratings (int k))"
  shows
    "(all_nonneg (icc_MSw ratings (int n))
        \<and> all_nonzero (icc_MSr ratings (int k) + py_int (int k - 1) * icc_MSw ratings (int n))
        \<and> 1 + real_of_int (int k - 1) * r0 \<noteq> 0
      \<longrightarrow> (\<exists>res. icc f ratings ''oneway'' type ''single'' r0 confidence_level = Inr res
                 \<and> all_between (- 1) 1 (coeff res)))
   \<and> (all_nonneg (icc_MSe ratings (int n) (int k))
        \<and> all_nonzero (icc_MSr ratings (int k) + py_int (int k - 1) * icc_MSe ratings (int n) (int k))
        \<and> 1 + real_of_int (int k - 1) * r0 \<noteq> 0
      \<longrightarrow> (\<exists>res. icc f ratings ''twoway'' ''consistency'' ''single'' r0 confidence_level = Inr res
                 \<and> all_between (- 1) 1 (coeff res)))
   \<and> (all_nonneg (icc_MSw ratings (int n)) \<and> all_nonzero (icc_MSr ratings (int k))
      \<longrightarrow> (\<exists>res. icc f ratings ''oneway'' type ''average'' r0 confidence_level = Inr res
                 \<and> all_at_most 1 (coeff res)))
   \<and> (all_nonneg (icc_MSe ratings (int n) (int k)) \<and> all_nonzero (icc_MSr ratings (int k))
      \<longrightarrow> (\<exists>res. icc f ratings ''twoway'' ''consistency'' ''average'' r0 confidence_level = Inr res
                 \<and> all_at_most 1 (coeff res)))"
proof -
  have K: "2 \<le> int k" using k by simp
  show ?thesis
    using shape MSr
    by (auto simp: icc_def Let_def icc_single_oneway_def icc_single_twoway_consistency_def
        icc_average_oneway_def icc_average_twoway_consistency_def py_truediv_def
        intro: single_coeff_range [OF _ _ _ K] average_coeff_at_most)
qed


theorem coeff_range_by_unit_witness:
  "shape koo = [5, 2] \<and> all_nonneg (icc_MSr koo 2) \<and> all_nonneg (icc_MSw koo 5)
   \<and> all_nonneg (icc_MSe koo 5 2) \<and> all_nonzero (icc_MSr koo 2)
   \<and> all_nonzero (icc_MSr koo 2 + py_int 1 * icc_MSw koo 5)
   \<and> all_nonzero (icc_MSr koo 2 + py_int 1 * icc_MSe koo 5 2)
   \<and> (\<forall>f. (\<exists>res. icc f koo ''oneway'' ''agreement'' ''single'' 0 (19 / 20) = Inr res
                 \<and> all_between (- 1) 1 (coeff res))
         \<and> (\<exists>res. icc f koo ''twoway'' ''consistency'' ''single'' 0 (19 / 20) = Inr res
                 \<and> all_between (- 1) 1 (coeff res))
         \<and> (\<exists>res. icc f koo ''oneway'' ''agreement'' ''average'' 0 (19 / 20) = Inr res
                 \<and> all_at_most 1 (coeff res))
         \<and> (\<exists>res. icc f koo ''twoway'' ''consistency'' ''average'' 0 (19 / 20) = Inr res
                 \<and> all_at_most 1 (coeff res)))"
proof -
  have facts: "shape koo = [5, 2]" "all_nonneg (icc_MSr koo 2)" "all_nonneg (icc_MSw koo 5)"
    "all_nonneg (icc_MSe koo 5 2)" "all_nonzero (icc_MSr koo 2)"
    "all_nonzero (icc_MSr koo 2 + py_int 1 * icc_MSw koo 5)"
    "all_nonzero (icc_MSr koo 2 + py_int 1 * icc_MSe koo 5 2)"
    by (simp_all add: koo_shape koo_mean_squares all_nonneg_def all_nonzero_def ndarr_arith)
  have "2 \<le> (2 :: nat)" by simp
  from coeff_range_by_unit [OF facts(1) this, of 0 _ "''agreement''" "19 / 20"] facts
  show ?thesis by simp
qed


text \<open>
  Claim C9 as stated fails with \<open>unit='average'\<close>, where the coefficient is
  \<open>(MSr - MSw) / MSr\<close> or \<open>(MSr - MSe) / MSr\<close>: it is below \<open>-1\<close> as soon as the second
  mean square is more than twice the first. For the matrix of two subjects and two
  raters who disagree all mean squares are non-negative and \<open>MSr\<close> is not zero, and
  the coefficients are \<open>-7\<close> and \<open>-22\<close>.
\<close>

theorem average_coeff_below_minus_one:
  "all_nonneg (icc_MSr disagreeing 2) \<and> all_nonneg (icc_MSw disagreeing 2)
   \<and> all_nonneg (icc_MSc disagreeing 2) \<and> all_nonneg (icc_MSe disagreeing 2 2)
   \<and> all_nonzero (icc_MSr disagreeing 2)
   \<and> (\<forall>f. map_sum id coeff (icc f disagreeing ''oneway'' ''agreement'' ''average'' 0 (19 / 20))
            = Inr (Vector [Fin (- 7), Fin (- 7)])
         \<and> map_sum id coeff (icc f disagreeing ''twoway'' ''consistency'' ''average'' 0 (19 / 20))
            = Inr (Vector [Fin (- 22), Fin (- 22)]))"
  by (simp add: icc_def Let_def disagreeing_shape disagreeing_mean_squares icc_branches ndarr_arith
      all_nonneg_def all_nonzero_def)


end
